theory Spec2Isabelle
  imports Main
begin

section \<open>Retry configuration\<close>

text \<open>
  The two module constants of \<^verbatim>\<open>sunpower.py\<close>:
  \<^verbatim>\<open>MAX_RETRIES = 3\<close> and \<^verbatim>\<open>RETRY_DELAYS = [2, 5, 10]\<close> (seconds between retries).
\<close>

definition MAX_RETRIES :: nat where
  "MAX_RETRIES = 3"

definition RETRY_DELAYS :: "nat list" where
  "RETRY_DELAYS = [2, 5, 10]"

section \<open>Exceptions\<close>

text \<open>
  An exception raised by \<^verbatim>\<open>requests.get\<close> or \<^verbatim>\<open>response.json()\<close>. The classes of
  \<^verbatim>\<open>requests.exceptions\<close> and \<^verbatim>\<open>simplejson.errors\<close> are declared outside this module,
  so an exception object carries, as data, the answer of \<^verbatim>\<open>isinstance\<close> for each of the
  four classes named by the \<^verbatim>\<open>except\<close> clauses, and its \<^verbatim>\<open>str()\<close>. A Python class may
  inherit from several of them, so the four answers are independent.
\<close>

record exn =
  is_ConnectionError :: bool
  is_Timeout :: bool
  is_RequestException :: bool
  is_JSONDecodeError :: bool
  str_of :: string

text \<open>
  What a caller of the module can see raised. \<^verbatim>\<open>ConnectionException\<close> and
  \<^verbatim>\<open>ParseException\<close> are the module's own classes, with their message and the chained
  cause of \<^verbatim>\<open>raise ... from ...\<close>. \<open>Uncaught\<close> is an exception that no \<^verbatim>\<open>except\<close>
  clause matches and that therefore propagates unchanged; \<open>IndexError\<close> is what
  \<^verbatim>\<open>RETRY_DELAYS[attempt]\<close> raises out of range.
\<close>

datatype error =
    ConnectionException string "exn option"
  | ParseException string exn
  | Uncaught exn
  | IndexError

section \<open>The world: requests, sleeps and the log\<close>

datatype level = WARNING | ERROR

record world =
  gets :: "(string \<times> nat) list"
  sleeps :: "nat list"
  logs :: "(level \<times> string) list"

text \<open>
  The response object, as far as the module uses it: \<^verbatim>\<open>response.json()\<close> either
  returns the parsed body or raises. The status code is carried but never read by the
  module (there is no \<^verbatim>\<open>raise_for_status\<close>).
\<close>

record 'j response =
  status_code :: nat
  json :: "exn + 'j"

text \<open>
  The transport stands for \<^verbatim>\<open>requests.get\<close>: given the number of GET requests issued
  so far, the URL and the timeout, it raises or returns a response.
\<close>

type_synonym 'j transport = "nat \<Rightarrow> string \<Rightarrow> nat \<Rightarrow> exn + 'j response"

section \<open>Formatting\<close>

definition digit_char :: "nat \<Rightarrow> char" where
  "digit_char d = ''0123456789'' ! d"

fun str_nat :: "nat \<Rightarrow> string" where
  "str_nat n = (if n < 10 then [digit_char n] else str_nat (n div 10) @ [digit_char (n mod 10)])"

declare str_nat.simps [simp del]

definition str_last_error :: "exn option \<Rightarrow> string" where
  "str_last_error le = (case le of None \<Rightarrow> ''None'' | Some e \<Rightarrow> str_of e)"

definition nth_py :: "'a list \<Rightarrow> nat \<Rightarrow> 'a option" where
  "nth_py xs i = (if i < length xs then Some (xs ! i) else None)"

section \<open>The retrying fetcher\<close>

text \<open>
  The body of the \<^verbatim>\<open>try\<close> block: \<^verbatim>\<open>response = requests.get(url, timeout=timeout)\<close>
  followed by \<^verbatim>\<open>return response.json()\<close>.
\<close>

definition try_body :: "'j transport \<Rightarrow> nat \<Rightarrow> string \<Rightarrow> nat \<Rightarrow> exn + 'j" where
  "try_body tr k url timeout =
     (case tr k url timeout of
        Inl e \<Rightarrow> Inl e
      | Inr response \<Rightarrow> json response)"

text \<open>How one iteration of the \<^verbatim>\<open>for\<close> loop ends.\<close>

datatype 'j ctl = Return 'j | Raise error | Continue | Break

definition log :: "level \<Rightarrow> string \<Rightarrow> world \<Rightarrow> world" where
  "log lv msg w = w\<lparr>logs := logs w @ [(lv, msg)]\<rparr>"

definition sleep :: "nat \<Rightarrow> world \<Rightarrow> world" where
  "sleep d w = w\<lparr>sleeps := sleeps w @ [d]\<rparr>"

definition issue_get :: "string \<Rightarrow> nat \<Rightarrow> world \<Rightarrow> world" where
  "issue_get url timeout w = w\<lparr>gets := gets w @ [(url, timeout)]\<rparr>"

text \<open>
  One iteration: the \<^verbatim>\<open>try\<close> block and its four \<^verbatim>\<open>except\<close> clauses, tried in the
  order of the source. The result is how the iteration ends, the new value of
  \<^verbatim>\<open>last_error\<close> and the new world.
\<close>

definition loop_body ::
  "'j transport \<Rightarrow> string \<Rightarrow> nat \<Rightarrow> nat \<Rightarrow> exn option \<Rightarrow> world \<Rightarrow> 'j ctl \<times> exn option \<times> world" where
  "loop_body tr url timeout attempt last_error w =
     (let w1 = issue_get url timeout w in
      case try_body tr (length (gets w)) url timeout of
        Inr j \<Rightarrow> (Return j, last_error, w1)
      | Inl error \<Rightarrow>
          if is_ConnectionError error then
            (if attempt < MAX_RETRIES - 1 then
               (case nth_py RETRY_DELAYS attempt of
                  None \<Rightarrow> (Raise IndexError, Some error, w1)
                | Some delay \<Rightarrow>
                    (Continue, Some error,
                     sleep delay
                       (log WARNING
                          (''PVS connection failed (attempt '' @ str_nat (attempt + 1) @ ''/''
                             @ str_nat MAX_RETRIES @ ''), retrying in '' @ str_nat delay @ ''s: ''
                             @ str_of error) w1)))
             else
               (Continue, Some error,
                log ERROR
                  (''PVS connection failed after '' @ str_nat MAX_RETRIES @ '' attempts: ''
                     @ str_of error) w1))
          else if is_Timeout error then
            (Raise (ConnectionException
                      (''PVS request timed out after '' @ str_nat timeout @ ''s'') (Some error)),
             last_error,
             log ERROR
               (''PVS request timed out after '' @ str_nat timeout @ ''s: '' @ str_of error) w1)
          else if is_RequestException error then
            (Break, Some error, log ERROR (''PVS request failed: '' @ str_of error) w1)
          else if is_JSONDecodeError error then
            (Raise (ParseException (''Invalid JSON response from PVS: '' @ str_of error) error),
             last_error,
             log ERROR (''PVS returned invalid JSON: '' @ str_of error) w1)
          else (Raise (Uncaught error), last_error, w1))"

text \<open>The \<^verbatim>\<open>raise\<close> after the loop.\<close>

definition after_loop :: "exn option \<Rightarrow> error" where
  "after_loop last_error =
     ConnectionException
       (''Failed to connect to PVS after '' @ str_nat MAX_RETRIES @ '' attempts: ''
          @ str_last_error last_error)
       last_error"

text \<open>\<^verbatim>\<open>for attempt in range(MAX_RETRIES)\<close>, from the given attempt index on.\<close>

function request_loop ::
  "'j transport \<Rightarrow> string \<Rightarrow> nat \<Rightarrow> nat \<Rightarrow> exn option \<Rightarrow> world \<Rightarrow> (error + 'j) \<times> world" where
  "request_loop tr url timeout attempt last_error w =
     (if attempt < MAX_RETRIES then
        (case loop_body tr url timeout attempt last_error w of
           (Return j, le, w') \<Rightarrow> (Inr j, w')
         | (Raise e, le, w') \<Rightarrow> (Inl e, w')
         | (Continue, le, w') \<Rightarrow> request_loop tr url timeout (attempt + 1) le w'
         | (Break, le, w') \<Rightarrow> (Inl (after_loop le), w'))
      else (Inl (after_loop last_error), w))"
  by pat_completeness auto
termination
  by (relation "measure (\<lambda>(tr, url, timeout, attempt, last_error, w). MAX_RETRIES - attempt)") auto

declare request_loop.simps [simp del]

definition request_with_retry ::
  "'j transport \<Rightarrow> string \<Rightarrow> nat \<Rightarrow> world \<Rightarrow> (error + 'j) \<times> world" where
  "request_with_retry tr url timeout w = request_loop tr url timeout 0 None w"

section \<open>The endpoint operations\<close>

record SunPowerMonitor =
  host :: string
  command_url :: string

definition init :: "string \<Rightarrow> SunPowerMonitor" where
  "init h = \<lparr>host = h, command_url = ''http://'' @ h @ ''/cgi-bin/dl_cgi?Command=''\<rparr>"

definition generic_command ::
  "SunPowerMonitor \<Rightarrow> string \<Rightarrow> 'j transport \<Rightarrow> world \<Rightarrow> (error + 'j) \<times> world" where
  "generic_command self command tr w = request_with_retry tr (command_url self @ command) 120 w"

definition device_list :: "SunPowerMonitor \<Rightarrow> 'j transport \<Rightarrow> world \<Rightarrow> (error + 'j) \<times> world" where
  "device_list self tr w = generic_command self ''DeviceList'' tr w"

definition energy_storage_system_status ::
  "SunPowerMonitor \<Rightarrow> 'j transport \<Rightarrow> world \<Rightarrow> (error + 'j) \<times> world" where
  "energy_storage_system_status self tr w =
     (let url = ''http://'' @ host self @ ''/cgi-bin/dl_cgi/energy-storage-system/status''
      in request_with_retry tr url 120 w)"

definition network_status :: "SunPowerMonitor \<Rightarrow> 'j transport \<Rightarrow> world \<Rightarrow> (error + 'j) \<times> world" where
  "network_status self tr w = generic_command self ''Get_Comm'' tr w"

section \<open>Inputs used by the concrete runs below\<close>

text \<open>
  Exception objects as the libraries raise them. In \<^verbatim>\<open>requests.exceptions\<close>,
  \<^verbatim>\<open>ConnectionError\<close> and \<^verbatim>\<open>Timeout\<close> derive from \<^verbatim>\<open>RequestException\<close>;
  \<^verbatim>\<open>ConnectTimeout\<close> derives from both \<^verbatim>\<open>ConnectionError\<close> and \<^verbatim>\<open>Timeout\<close>;
  \<^verbatim>\<open>ReadTimeout\<close> derives from \<^verbatim>\<open>Timeout\<close> only; and the \<^verbatim>\<open>JSONDecodeError\<close>
  that \<^verbatim>\<open>Response.json()\<close> raises derives from \<^verbatim>\<open>RequestException\<close> (through
  \<^verbatim>\<open>InvalidJSONError\<close>) and from the JSON library's own \<^verbatim>\<open>JSONDecodeError\<close>, which is
  \<^verbatim>\<open>simplejson\<close>'s when that package is installed. A bare \<^verbatim>\<open>simplejson\<close> decode error
  is none of the \<^verbatim>\<open>requests\<close> classes.
\<close>

definition ConnectionError_exn :: "string \<Rightarrow> exn" where
  "ConnectionError_exn msg =
     \<lparr>is_ConnectionError = True, is_Timeout = False, is_RequestException = True,
      is_JSONDecodeError = False, str_of = msg\<rparr>"

definition ConnectTimeout_exn :: "string \<Rightarrow> exn" where
  "ConnectTimeout_exn msg =
     \<lparr>is_ConnectionError = True, is_Timeout = True, is_RequestException = True,
      is_JSONDecodeError = False, str_of = msg\<rparr>"

definition ReadTimeout_exn :: "string \<Rightarrow> exn" where
  "ReadTimeout_exn msg =
     \<lparr>is_ConnectionError = False, is_Timeout = True, is_RequestException = True,
      is_JSONDecodeError = False, str_of = msg\<rparr>"

definition InvalidURL_exn :: "string \<Rightarrow> exn" where
  "InvalidURL_exn msg =
     \<lparr>is_ConnectionError = False, is_Timeout = False, is_RequestException = True,
      is_JSONDecodeError = False, str_of = msg\<rparr>"

definition requests_JSONDecodeError_exn :: "string \<Rightarrow> exn" where
  "requests_JSONDecodeError_exn msg =
     \<lparr>is_ConnectionError = False, is_Timeout = False, is_RequestException = True,
      is_JSONDecodeError = True, str_of = msg\<rparr>"

definition simplejson_JSONDecodeError_exn :: "string \<Rightarrow> exn" where
  "simplejson_JSONDecodeError_exn msg =
     \<lparr>is_ConnectionError = False, is_Timeout = False, is_RequestException = False,
      is_JSONDecodeError = True, str_of = msg\<rparr>"

definition w0 :: world where
  "w0 = \<lparr>gets = [], sleeps = [], logs = []\<rparr>"

definition ok_response :: "string \<Rightarrow> string response" where
  "ok_response body = \<lparr>status_code = 200, json = Inr body\<rparr>"

text \<open>Transports: the outcome of the GET number \<open>k\<close> (counted from 0).\<close>

definition refused_twice :: "string transport" where
  "refused_twice k url timeout =
     (if k < 2 then Inl (ConnectionError_exn ''Connection refused'')
      else Inr (ok_response ''[]''))"

definition always_refused :: "string transport" where
  "always_refused k url timeout = Inl (ConnectionError_exn ''Connection refused'')"

definition invalid_url :: "string transport" where
  "invalid_url k url timeout = Inl (InvalidURL_exn ''Invalid URL'')"

definition not_json_200 :: "string transport" where
  "not_json_200 k url timeout =
     Inr \<lparr>status_code = 200,
          json = Inl (requests_JSONDecodeError_exn ''Expecting value: line 1 column 1 (char 0)'')\<rparr>"

definition connect_timeout_once :: "string transport" where
  "connect_timeout_once k url timeout =
     (if k < 1 then Inl (ConnectTimeout_exn ''connect timed out'')
      else Inr (ok_response ''[]''))"

definition refused_then_connect_timeout :: "string transport" where
  "refused_then_connect_timeout k url timeout =
     (if k < 1 then Inl (ConnectionError_exn ''Connection refused'')
      else if k < 2 then Inl (ConnectTimeout_exn ''connect timed out'')
      else Inr (ok_response ''[]''))"


definition read_timeout :: "string transport" where
  "read_timeout k url timeout = Inl (ReadTimeout_exn ''Read timed out.'')"

definition bare_simplejson_error :: "string transport" where
  "bare_simplejson_error k url timeout =
     Inr \<lparr>status_code = 200,
          json = Inl (simplejson_JSONDecodeError_exn ''Expecting value'')\<rparr>"

text \<open>
  Python's \<^verbatim>\<open>RecursionError\<close>, which the JSON decoder raises on a body nested deeper than
  the interpreter's recursion limit, is none of the four classes.
\<close>

definition RecursionError_exn :: "string \<Rightarrow> exn" where
  "RecursionError_exn msg =
     \<lparr>is_ConnectionError = False, is_Timeout = False, is_RequestException = False,
      is_JSONDecodeError = False, str_of = msg\<rparr>"


section \<open>What the caller sees\<close>



section \<open>Formatting of small numbers\<close>

lemma str_nat_digit: "n < 10 \<Longrightarrow> str_nat n = [digit_char n]"
  by (simp add: str_nat.simps)

lemma str_nat_vals:
  "str_nat (Suc 0) = ''1''" "str_nat (Suc (Suc 0)) = ''2''" "str_nat 1 = ''1''"
  "str_nat 2 = ''2''" "str_nat 3 = ''3''" "str_nat 5 = ''5''" "str_nat 120 = ''120''"
  by (simp_all add: str_nat.simps [of 120] str_nat.simps [of 12] str_nat_digit digit_char_def)

lemmas unroll =
  request_with_retry_def request_loop.simps loop_body_def after_loop_def str_last_error_def
  MAX_RETRIES_def RETRY_DELAYS_def nth_py_def log_def sleep_def issue_get_def

lemmas inputs =
  w0_def try_body_def ConnectionError_exn_def ConnectTimeout_exn_def ReadTimeout_exn_def
  InvalidURL_exn_def requests_JSONDecodeError_exn_def simplejson_JSONDecodeError_exn_def
  RecursionError_exn_def ok_response_def

section \<open>One iteration\<close>

lemma loop_body_gets:
  "gets (snd (snd (loop_body tr url t a le w))) = gets w @ [(url, t)]"
  by (simp add: loop_body_def Let_def issue_get_def log_def sleep_def
      split: sum.splits option.splits)

lemma loop_body_not_IndexError:
  "a < MAX_RETRIES \<Longrightarrow> fst (loop_body tr url t a le w) \<noteq> Raise IndexError"
  by (auto simp add: loop_body_def Let_def nth_py_def MAX_RETRIES_def RETRY_DELAYS_def
      split: sum.splits option.splits)

lemma loop_body_sleeps:
  "a < MAX_RETRIES \<Longrightarrow>
   sleeps (snd (snd (loop_body tr url t a le w))) =
     (if fst (loop_body tr url t a le w) = Continue \<and> a < MAX_RETRIES - 1
      then sleeps w @ [RETRY_DELAYS ! a] else sleeps w)"
  by (auto simp add: loop_body_def Let_def nth_py_def MAX_RETRIES_def RETRY_DELAYS_def
      issue_get_def log_def sleep_def
      split: sum.splits option.splits)

section \<open>The loop: requests, sleeps and indices\<close>

lemma request_loop_done:
  "\<not> a < MAX_RETRIES \<Longrightarrow> request_loop tr url t a le w = (Inl (after_loop le), w)"
  by (simp add: request_loop.simps [of tr url t a le w])

lemma request_loop_inv:
  "a < MAX_RETRIES \<Longrightarrow>
   \<exists>n m. 1 \<le> n \<and> n \<le> MAX_RETRIES - a \<and> m < n \<and> a + m \<le> MAX_RETRIES - 1
     \<and> gets (snd (request_loop tr url t a le w)) = gets w @ replicate n (url, t)
     \<and> sleeps (snd (request_loop tr url t a le w)) = sleeps w @ take m (drop a RETRY_DELAYS)
     \<and> fst (request_loop tr url t a le w) \<noteq> Inl IndexError"
proof (induction tr url t a le w rule: request_loop.induct)
  case (1 tr url t a le w)
  note lt = \<open>a < MAX_RETRIES\<close>
  obtain c le' w' where lb: "loop_body tr url t a le w = (c, le', w')"
    by (cases "loop_body tr url t a le w") auto
  have g: "gets w' = gets w @ [(url, t)]"
    using loop_body_gets [of tr url t a le w] lb by simp
  have s: "sleeps w' = (if c = Continue \<and> a < MAX_RETRIES - 1
      then sleeps w @ [RETRY_DELAYS ! a] else sleeps w)"
    using loop_body_sleeps [OF lt, of tr url t le w] lb by simp
  have ni: "c \<noteq> Raise IndexError"
    using loop_body_not_IndexError [OF lt, of tr url t le w] lb by simp
  show ?case
  proof (cases c)
    case (Return j)
    then show ?thesis using lt lb g s
      by (simp add: request_loop.simps [of tr url t a le w]) (rule exI [of _ 1], auto)
  next
    case (Raise e)
    then show ?thesis using lt lb g s ni
      by (simp add: request_loop.simps [of tr url t a le w]) (rule exI [of _ 1], auto)
  next
    case Break
    then show ?thesis using lt lb g s
      by (simp add: request_loop.simps [of tr url t a le w] after_loop_def)
        (rule exI [of _ 1], auto)
  next
    case Continue
    have eq: "request_loop tr url t a le w = request_loop tr url t (a + 1) le' w'"
      using lt lb Continue by (simp add: request_loop.simps [of tr url t a le w])
    show ?thesis
    proof (cases "a + 1 < MAX_RETRIES")
      case True
      from "1.IH" [OF lt lb [symmetric] Continue refl True]
      obtain n m where nm: "1 \<le> n" "n \<le> MAX_RETRIES - (a + 1)" "m < n"
        "a + 1 + m \<le> MAX_RETRIES - 1"
        "gets (snd (request_loop tr url t (a + 1) le' w')) = gets w' @ replicate n (url, t)"
        "sleeps (snd (request_loop tr url t (a + 1) le' w')) =
           sleeps w' @ take m (drop (a + 1) RETRY_DELAYS)"
        "fst (request_loop tr url t (a + 1) le' w') \<noteq> Inl IndexError"
        by blast
      have d: "drop a RETRY_DELAYS = RETRY_DELAYS ! a # drop (a + 1) RETRY_DELAYS"
      proof -
        have "a < length RETRY_DELAYS"
          using True by (simp add: MAX_RETRIES_def RETRY_DELAYS_def)
        from Cons_nth_drop_Suc [OF this, symmetric] show ?thesis by simp
      qed
      have a1: "a < MAX_RETRIES - 1" using True by simp
      show ?thesis
        apply (rule exI [of _ "Suc n"], rule exI [of _ "Suc m"])
        using nm a1 g s Continue d unfolding eq
        by (simp add: replicate_append_same [symmetric])
    next
      case False
      have a1: "\<not> a < MAX_RETRIES - 1" using False by simp
      show ?thesis
        apply (rule exI [of _ 1], rule exI [of _ 0])
        using lt a1 g s Continue unfolding eq request_loop_done [OF False]
        by (auto simp add: after_loop_def)
    qed
  qed
qed

text \<open>
  C10. Whatever the transport does, \<open>request_with_retry\<close> returns (the loop is a total
  function, its termination proved with the measure \<open>MAX_RETRIES - attempt\<close>) after
  between 1 and \<open>MAX_RETRIES = 3\<close> GET requests. The delays slept are the first \<open>m\<close>
  entries of \<open>RETRY_DELAYS\<close>, read at the indices \<open>0, ..., m - 1\<close>, with
  \<open>m \<le> MAX_RETRIES - 1 = 2\<close>, which is below the length of the list: the read never
  raises \<open>IndexError\<close>, and the third entry, 10, is never used.
\<close>

theorem request_with_retry_bounded:
  "\<exists>n m. 1 \<le> n \<and> n \<le> MAX_RETRIES \<and> MAX_RETRIES = 3 \<and> m < n \<and> m \<le> MAX_RETRIES - 1
     \<and> m < length RETRY_DELAYS
     \<and> gets (snd (request_with_retry tr url t w)) = gets w @ replicate n (url, t)
     \<and> sleeps (snd (request_with_retry tr url t w)) = sleeps w @ map (\<lambda>i. RETRY_DELAYS ! i) [0..<m]
     \<and> 10 \<notin> set (map (\<lambda>i. RETRY_DELAYS ! i) [0..<m])
     \<and> fst (request_with_retry tr url t w) \<noteq> Inl IndexError"
proof -
  have "0 < MAX_RETRIES" by (simp add: MAX_RETRIES_def)
  from request_loop_inv [OF this, of tr url t None w]
  obtain n m where nm: "1 \<le> n" "n \<le> MAX_RETRIES - 0" "m < n" "0 + m \<le> MAX_RETRIES - 1"
    "gets (snd (request_loop tr url t 0 None w)) = gets w @ replicate n (url, t)"
    "sleeps (snd (request_loop tr url t 0 None w)) = sleeps w @ take m (drop 0 RETRY_DELAYS)"
    "fst (request_loop tr url t 0 None w) \<noteq> Inl IndexError"
    by blast
  have m2: "m \<le> 2" using nm(4) by (simp add: MAX_RETRIES_def)
  then have "m \<le> length RETRY_DELAYS" by (simp add: RETRY_DELAYS_def)
  then have tk: "take m RETRY_DELAYS = map (\<lambda>i. RETRY_DELAYS ! i) [0..<m]"
    by (simp add: list_eq_iff_nth_eq)
  from m2 have "m = 0 \<or> m = 1 \<or> m = 2" by arith
  then have ten: "10 \<notin> set (take m RETRY_DELAYS)"
    by (auto simp add: RETRY_DELAYS_def)
  show ?thesis
    by (rule exI [of _ n], rule exI [of _ m])
      (use nm ten m2 tk in \<open>simp add: request_with_retry_def MAX_RETRIES_def\<close>,
        simp add: RETRY_DELAYS_def)
qed

text \<open>
  C8, as the claim states it, fails: \<open>RETRY_DELAYS\<close> has three entries and
  \<open>MAX_RETRIES - 1\<close> is two.
\<close>

theorem RETRY_DELAYS_length_counterexample:
  "length RETRY_DELAYS \<noteq> MAX_RETRIES - 1"
  by (simp add: RETRY_DELAYS_def MAX_RETRIES_def)

text \<open>
  C8, amended. The delay sequence has as many entries as the maximum attempt count
  (three); a call sleeps only a prefix of it of length at most \<open>MAX_RETRIES - 1\<close>.
\<close>

theorem RETRY_DELAYS_length:
  "length RETRY_DELAYS = MAX_RETRIES
   \<and> (\<exists>m. m \<le> MAX_RETRIES - 1
        \<and> sleeps (snd (request_with_retry tr url t w)) = sleeps w @ take m RETRY_DELAYS)"
proof -
  have "0 < MAX_RETRIES" by (simp add: MAX_RETRIES_def)
  from request_loop_inv [OF this, of tr url t None w]
  obtain m where "0 + m \<le> MAX_RETRIES - 1"
    "sleeps (snd (request_loop tr url t 0 None w)) = sleeps w @ take m (drop 0 RETRY_DELAYS)"
    by blast
  then have "\<exists>m. m \<le> MAX_RETRIES - 1
        \<and> sleeps (snd (request_with_retry tr url t w)) = sleeps w @ take m RETRY_DELAYS"
    by (intro exI [of _ m]) (simp add: request_with_retry_def)
  moreover have "length RETRY_DELAYS = MAX_RETRIES"
    by (simp add: RETRY_DELAYS_def MAX_RETRIES_def)
  ultimately show ?thesis by simp
qed

section \<open>Retried connectivity failures\<close>

text \<open>
  C1. When the first two GET requests of a call raise a connectivity failure (an instance
  of \<^verbatim>\<open>requests.exceptions.ConnectionError\<close>) and the third returns a response whose
  \<^verbatim>\<open>json()\<close> yields \<open>j\<close>, the call returns \<open>j\<close>, sleeps exactly twice, 2 seconds then
  5 seconds, with no sleep after the success, and issues exactly three GET requests.
\<close>

theorem retry_then_succeed:
  assumes "try_body tr (length (gets w)) url t = Inl e1" and "is_ConnectionError e1"
    and "try_body tr (length (gets w) + 1) url t = Inl e2" and "is_ConnectionError e2"
    and "try_body tr (length (gets w) + 2) url t = Inr j"
  shows "fst (request_with_retry tr url t w) = Inr j
    \<and> sleeps (snd (request_with_retry tr url t w)) = sleeps w @ [2, 5]
    \<and> gets (snd (request_with_retry tr url t w)) = gets w @ [(url, t), (url, t), (url, t)]"
  using assms by (simp add: unroll)

text \<open>C1 at a transport that refuses the connection twice and then answers \<open>[]\<close>.\<close>

theorem retry_then_succeed_witness:
  "try_body refused_twice 0 ''http://pvs/cgi-bin/dl_cgi?Command=DeviceList'' 120
     = Inl (ConnectionError_exn ''Connection refused'')
   \<and> try_body refused_twice 1 ''http://pvs/cgi-bin/dl_cgi?Command=DeviceList'' 120
     = Inl (ConnectionError_exn ''Connection refused'')
   \<and> is_ConnectionError (ConnectionError_exn ''Connection refused'')
   \<and> fst (request_with_retry refused_twice ''http://pvs/cgi-bin/dl_cgi?Command=DeviceList'' 120 w0)
     = Inr ''[]''
   \<and> sleeps (snd (request_with_retry refused_twice
        ''http://pvs/cgi-bin/dl_cgi?Command=DeviceList'' 120 w0)) = [2, 5]
   \<and> length (gets (snd (request_with_retry refused_twice
        ''http://pvs/cgi-bin/dl_cgi?Command=DeviceList'' 120 w0))) = 3"
proof -
  let ?u = "''http://pvs/cgi-bin/dl_cgi?Command=DeviceList''"
  let ?e = "ConnectionError_exn ''Connection refused''"
  have h1: "try_body refused_twice (length (gets w0)) ?u 120 = Inl ?e"
    by (simp add: try_body_def refused_twice_def w0_def)
  have h2: "is_ConnectionError ?e"
    by (simp add: ConnectionError_exn_def)
  have h3: "try_body refused_twice (length (gets w0) + 1) ?u 120 = Inl ?e"
    by (simp add: try_body_def refused_twice_def w0_def)
  have h5: "try_body refused_twice (length (gets w0) + 2) ?u 120 = Inr ''[]''"
    by (simp add: try_body_def refused_twice_def w0_def ok_response_def)
  from retry_then_succeed [OF h1 h2 h3 h2 h5] h1 h2 h3 show ?thesis
    by (simp add: w0_def)
qed

text \<open>
  C2. When all three GET requests of a call raise a connectivity failure, the call raises
  \<^verbatim>\<open>ConnectionException\<close> after exactly three requests and exactly two sleeps, 2 seconds
  then 5 seconds. Its message names the attempt count (3) and ends with the \<^verbatim>\<open>str()\<close>
  of the last of the three errors, which is also its chained cause.
\<close>

theorem exhaustion:
  assumes "try_body tr (length (gets w)) url t = Inl e1" and "is_ConnectionError e1"
    and "try_body tr (length (gets w) + 1) url t = Inl e2" and "is_ConnectionError e2"
    and "try_body tr (length (gets w) + 2) url t = Inl e3" and "is_ConnectionError e3"
  shows "fst (request_with_retry tr url t w) =
      Inl (ConnectionException
             (''Failed to connect to PVS after 3 attempts: '' @ str_of e3) (Some e3))
    \<and> sleeps (snd (request_with_retry tr url t w)) = sleeps w @ [2, 5]
    \<and> gets (snd (request_with_retry tr url t w)) = gets w @ [(url, t), (url, t), (url, t)]"
  using assms by (simp add: unroll str_nat_vals)

text \<open>C2 at a transport that always refuses the connection.\<close>

theorem exhaustion_witness:
  "try_body always_refused 2 ''http://pvs/cgi-bin/dl_cgi?Command=Get_Comm'' 120
     = Inl (ConnectionError_exn ''Connection refused'')
   \<and> is_ConnectionError (ConnectionError_exn ''Connection refused'')
   \<and> fst (request_with_retry always_refused ''http://pvs/cgi-bin/dl_cgi?Command=Get_Comm'' 120 w0)
     = Inl (ConnectionException ''Failed to connect to PVS after 3 attempts: Connection refused''
              (Some (ConnectionError_exn ''Connection refused'')))
   \<and> sleeps (snd (request_with_retry always_refused
        ''http://pvs/cgi-bin/dl_cgi?Command=Get_Comm'' 120 w0)) = [2, 5]
   \<and> length (gets (snd (request_with_retry always_refused
        ''http://pvs/cgi-bin/dl_cgi?Command=Get_Comm'' 120 w0))) = 3"
proof -
  let ?u = "''http://pvs/cgi-bin/dl_cgi?Command=Get_Comm''"
  let ?e = "ConnectionError_exn ''Connection refused''"
  have h: "try_body always_refused k ?u 120 = Inl ?e" for k
    by (simp add: try_body_def always_refused_def)
  have c: "is_ConnectionError ?e"
    by (simp add: ConnectionError_exn_def)
  have s: "str_of ?e = ''Connection refused''"
    by (simp add: ConnectionError_exn_def)
  from exhaustion [OF h [of "length (gets w0)"] c h [of "length (gets w0) + 1"] c
      h [of "length (gets w0) + 2"] c] h [of 2] c s
  show ?thesis
    by (simp add: w0_def)
qed

section \<open>Failures that are not retried\<close>

text \<open>
  C5. When the first GET request of a call raises a request failure that is neither a
  connectivity failure nor a timeout (an instance of \<^verbatim>\<open>RequestException\<close> but of neither
  \<^verbatim>\<open>ConnectionError\<close> nor \<^verbatim>\<open>Timeout\<close>), the call raises \<^verbatim>\<open>ConnectionException\<close> with
  that error as its cause and in its message, after exactly one request and no sleep.
\<close>

theorem generic_failure_stops:
  assumes "try_body tr (length (gets w)) url t = Inl e"
    and "\<not> is_ConnectionError e" and "\<not> is_Timeout e" and "is_RequestException e"
  shows "fst (request_with_retry tr url t w) =
      Inl (ConnectionException
             (''Failed to connect to PVS after 3 attempts: '' @ str_of e) (Some e))
    \<and> sleeps (snd (request_with_retry tr url t w)) = sleeps w
    \<and> gets (snd (request_with_retry tr url t w)) = gets w @ [(url, t)]"
  using assms by (simp add: unroll str_nat_vals)

text \<open>C5 at a transport that rejects the URL.\<close>

theorem generic_failure_stops_witness:
  "try_body invalid_url 0 ''http://pvs/cgi-bin/dl_cgi?Command=DeviceList'' 120
     = Inl (InvalidURL_exn ''Invalid URL'')
   \<and> is_RequestException (InvalidURL_exn ''Invalid URL'')
   \<and> fst (request_with_retry invalid_url ''http://pvs/cgi-bin/dl_cgi?Command=DeviceList'' 120 w0)
     = Inl (ConnectionException ''Failed to connect to PVS after 3 attempts: Invalid URL''
              (Some (InvalidURL_exn ''Invalid URL'')))
   \<and> sleeps (snd (request_with_retry invalid_url
        ''http://pvs/cgi-bin/dl_cgi?Command=DeviceList'' 120 w0)) = []
   \<and> gets (snd (request_with_retry invalid_url
        ''http://pvs/cgi-bin/dl_cgi?Command=DeviceList'' 120 w0))
     = [(''http://pvs/cgi-bin/dl_cgi?Command=DeviceList'', 120)]"
proof -
  let ?u = "''http://pvs/cgi-bin/dl_cgi?Command=DeviceList''"
  let ?e = "InvalidURL_exn ''Invalid URL''"
  have h: "try_body invalid_url (length (gets w0)) ?u 120 = Inl ?e"
    by (simp add: try_body_def invalid_url_def)
  have n1: "\<not> is_ConnectionError ?e" and n2: "\<not> is_Timeout ?e"
    and r: "is_RequestException ?e" and s: "str_of ?e = ''Invalid URL''"
    by (simp_all add: InvalidURL_exn_def)
  from generic_failure_stops [OF h n1 n2 r] h r s show ?thesis
    by (simp add: w0_def)
qed

text \<open>
  A timeout that is not also a connectivity failure ends the call at whatever attempt it
  occurs: after \<open>k\<close> connectivity failures the call raises \<^verbatim>\<open>ConnectionException\<close>
  with the timeout message after \<open>k + 1\<close> requests and \<open>k\<close> sleeps.
\<close>

lemma timeout_stops:
  assumes "k < MAX_RETRIES"
    and "\<forall>i<k. \<exists>e'. try_body tr (length (gets w) + i) url t = Inl e' \<and> is_ConnectionError e'"
    and "try_body tr (length (gets w) + k) url t = Inl e"
    and "\<not> is_ConnectionError e" and "is_Timeout e"
  shows "fst (request_with_retry tr url t w) =
      Inl (ConnectionException (''PVS request timed out after '' @ str_nat t @ ''s'') (Some e))
    \<and> sleeps (snd (request_with_retry tr url t w)) = sleeps w @ take k RETRY_DELAYS
    \<and> gets (snd (request_with_retry tr url t w)) = gets w @ replicate (k + 1) (url, t)"
proof -
  from assms(1) have "k = 0 \<or> k = 1 \<or> k = 2" by (auto simp add: MAX_RETRIES_def)
  then show ?thesis
  proof (elim disjE)
    assume "k = 0"
    with assms show ?thesis by (simp add: unroll)
  next
    assume k: "k = 1"
    with assms(2) obtain e0 where
      "try_body tr (length (gets w)) url t = Inl e0" "is_ConnectionError e0"
      by auto
    with k assms(3-) show ?thesis by (simp add: unroll)
  next
    assume k: "k = 2"
    have "\<exists>e'. try_body tr (length (gets w) + 0) url t = Inl e' \<and> is_ConnectionError e'"
      "\<exists>e'. try_body tr (length (gets w) + 1) url t = Inl e' \<and> is_ConnectionError e'"
      using assms(2) [rule_format, of 0] assms(2) [rule_format, of 1] k by simp_all
    then obtain e0 e1 where
      "try_body tr (length (gets w)) url t = Inl e0" "is_ConnectionError e0"
      "try_body tr (length (gets w) + 1) url t = Inl e1" "is_ConnectionError e1"
      by auto
    with k assms(3-) show ?thesis by (simp add: unroll numeral_2_eq_2)
  qed
qed

lemma read_timeout_run:
  "request_with_retry read_timeout ''http://pvs/cgi-bin/dl_cgi?Command=DeviceList'' 120 w0 =
     (Inl (ConnectionException ''PVS request timed out after 120s''
             (Some (ReadTimeout_exn ''Read timed out.''))),
      \<lparr>gets = [(''http://pvs/cgi-bin/dl_cgi?Command=DeviceList'', 120)], sleeps = [],
       logs = [(ERROR, ''PVS request timed out after 120s: Read timed out.'')]\<rparr>)"
  by (simp add: unroll inputs read_timeout_def str_nat_vals)

text \<open>
  C4, at the input where it fails. \<^verbatim>\<open>requests.exceptions.ConnectTimeout\<close> is a timeout and
  also a \<^verbatim>\<open>ConnectionError\<close>; the first \<^verbatim>\<open>except\<close> clause takes it. Raised by the first
  GET request, it is logged as a failed connection, followed by a sleep of 2 seconds and
  a second request, whose JSON the call returns: two requests, one sleep, no exception.
\<close>

theorem connect_timeout_is_retried:
  "request_with_retry connect_timeout_once
       ''http://pvs/cgi-bin/dl_cgi?Command=DeviceList'' 120 w0 =
     (Inr ''[]'',
      \<lparr>gets = [(''http://pvs/cgi-bin/dl_cgi?Command=DeviceList'', 120),
               (''http://pvs/cgi-bin/dl_cgi?Command=DeviceList'', 120)],
       sleeps = [2],
       logs = [(WARNING,
                ''PVS connection failed (attempt 1/3), retrying in 2s: connect timed out'')]\<rparr>)"
  by (simp add: unroll inputs connect_timeout_once_def str_nat_vals)

text \<open>
  C9, at the input where it fails (\<open>k = 2\<close>). The first GET request is refused, the second
  raises \<^verbatim>\<open>ConnectTimeout\<close>: the call does not stop after two requests and one sleep but
  sleeps 5 more seconds and issues the third request, whose JSON it returns.
\<close>

theorem connect_timeout_on_second_attempt_is_retried:
  "request_with_retry refused_then_connect_timeout
       ''http://pvs/cgi-bin/dl_cgi?Command=Get_Comm'' 120 w0 =
     (Inr ''[]'',
      \<lparr>gets = [(''http://pvs/cgi-bin/dl_cgi?Command=Get_Comm'', 120),
               (''http://pvs/cgi-bin/dl_cgi?Command=Get_Comm'', 120),
               (''http://pvs/cgi-bin/dl_cgi?Command=Get_Comm'', 120)],
       sleeps = [2, 5],
       logs = [(WARNING,
                ''PVS connection failed (attempt 1/3), retrying in 2s: Connection refused''),
               (WARNING,
                ''PVS connection failed (attempt 2/3), retrying in 5s: connect timed out'')]\<rparr>)"
  by (simp add: unroll inputs refused_then_connect_timeout_def str_nat_vals)

section \<open>Invalid JSON\<close>

text \<open>
  A decode error that is none of the \<^verbatim>\<open>requests\<close> classes reaches the fourth
  \<^verbatim>\<open>except\<close> clause: \<^verbatim>\<open>ParseException\<close>, one request, no sleep.
\<close>

lemma invalid_json_parse:
  assumes "try_body tr (length (gets w)) url t = Inl e"
    and "\<not> is_ConnectionError e" and "\<not> is_Timeout e" and "\<not> is_RequestException e"
    and "is_JSONDecodeError e"
  shows "fst (request_with_retry tr url t w) =
      Inl (ParseException (''Invalid JSON response from PVS: '' @ str_of e) e)
    \<and> sleeps (snd (request_with_retry tr url t w)) = sleeps w
    \<and> gets (snd (request_with_retry tr url t w)) = gets w @ [(url, t)]"
  using assms by (simp add: unroll)

lemma bare_simplejson_error_run:
  "request_with_retry bare_simplejson_error
       ''http://pvs/cgi-bin/dl_cgi?Command=DeviceList'' 120 w0 =
     (Inl (ParseException ''Invalid JSON response from PVS: Expecting value''
             (simplejson_JSONDecodeError_exn ''Expecting value'')),
      \<lparr>gets = [(''http://pvs/cgi-bin/dl_cgi?Command=DeviceList'', 120)], sleeps = [],
       logs = [(ERROR, ''PVS returned invalid JSON: Expecting value'')]\<rparr>)"
  by (simp add: unroll inputs bare_simplejson_error_def)

text \<open>
  C3, at the input where it fails. The transport returns a 200 response whose body is not
  JSON; \<^verbatim>\<open>response.json()\<close> raises the \<^verbatim>\<open>JSONDecodeError\<close> of \<^verbatim>\<open>requests\<close>, which is a
  \<^verbatim>\<open>RequestException\<close> as well as a \<^verbatim>\<open>simplejson\<close> decode error. The third \<^verbatim>\<open>except\<close>
  clause takes it before the fourth is tried: the call raises \<^verbatim>\<open>ConnectionException\<close>, not
  \<^verbatim>\<open>ParseException\<close>, after one request and no sleep.
\<close>

theorem invalid_json_raises_ConnectionException:
  "request_with_retry not_json_200 ''http://pvs/cgi-bin/dl_cgi?Command=DeviceList'' 120 w0 =
     (Inl (ConnectionException
        ''Failed to connect to PVS after 3 attempts: Expecting value: line 1 column 1 (char 0)''
        (Some (requests_JSONDecodeError_exn ''Expecting value: line 1 column 1 (char 0)''))),
      \<lparr>gets = [(''http://pvs/cgi-bin/dl_cgi?Command=DeviceList'', 120)], sleeps = [],
       logs = [(ERROR, ''PVS request failed: Expecting value: line 1 column 1 (char 0)'')]\<rparr>)"
  by (simp add: unroll inputs not_json_200_def str_nat_vals)

section \<open>Only the module's exceptions escape\<close>






section \<open>The URLs of the endpoint operations\<close>

text \<open>
  C7. For every host \<open>h\<close>, transport and world, every GET request that \<open>device_list\<close>
  issues on a monitor built by \<open>init h\<close> (there are between one and three) has the URL
  \<^verbatim>\<open>http://h/cgi-bin/dl_cgi?Command=DeviceList\<close> and the timeout 120; those of
  \<open>network_status\<close> have \<^verbatim>\<open>http://h/cgi-bin/dl_cgi?Command=Get_Comm\<close>; those of
  \<open>energy_storage_system_status\<close> have
  \<^verbatim>\<open>http://h/cgi-bin/dl_cgi/energy-storage-system/status\<close>, whatever the command URL of
  the monitor is.
\<close>

theorem endpoint_urls:
  "(\<exists>n. 1 \<le> n \<and> n \<le> MAX_RETRIES
      \<and> gets (snd (device_list (init h) tr w)) =
          gets w @ replicate n (''http://'' @ h @ ''/cgi-bin/dl_cgi?Command=DeviceList'', 120))
   \<and> (\<exists>n. 1 \<le> n \<and> n \<le> MAX_RETRIES
      \<and> gets (snd (network_status (init h) tr w)) =
          gets w @ replicate n (''http://'' @ h @ ''/cgi-bin/dl_cgi?Command=Get_Comm'', 120))
   \<and> (\<exists>n. 1 \<le> n \<and> n \<le> MAX_RETRIES
      \<and> gets (snd (energy_storage_system_status ((init h)\<lparr>command_url := c\<rparr>) tr w)) =
          gets w @ replicate n
            (''http://'' @ h @ ''/cgi-bin/dl_cgi/energy-storage-system/status'', 120))"
proof -
  have lt: "0 < MAX_RETRIES" by (simp add: MAX_RETRIES_def)
  have *: "\<exists>n. 1 \<le> n \<and> n \<le> MAX_RETRIES
      \<and> gets (snd (request_with_retry tr u 120 w)) = gets w @ replicate n (u, 120)" for u
    using request_loop_inv [OF lt, of tr u 120 None w]
    by (auto simp add: request_with_retry_def)
  show ?thesis
    using * [of "''http://'' @ h @ ''/cgi-bin/dl_cgi?Command=DeviceList''"]
      * [of "''http://'' @ h @ ''/cgi-bin/dl_cgi?Command=Get_Comm''"]
      * [of "''http://'' @ h @ ''/cgi-bin/dl_cgi/energy-storage-system/status''"]
    by (simp add: device_list_def network_status_def generic_command_def
        energy_storage_system_status_def init_def)
qed

end
